theory Spec2Isabelle
  imports Complex_Main
begin

section \<open>Conventions of the embedding\<close>

text \<open>
  The consultation workbench page keeps its state in React \<open>useState\<close> cells and in two
  stores; every handler reads the cells of the current render and writes new values. The
  embedding collects the cells in one record and turns each handler into a function from
  the state before the event to the state after it.

  \<^item> A JavaScript \<open>number\<close> that carries a quantity or an amount of money is a \<open>real\<close>:
    arithmetic is exact, \<open>NaN\<close> is the value \<open>None\<close> of an option where the source can
    produce it (\<open>parseFloat\<close>), rounding and the infinities are outside the model.
  \<^item> A \<open>number\<close> that carries a database id or an array index is a \<open>nat\<close>;
    \<open>number | null\<close> is \<open>nat option\<close>, and the truthiness test of the source is
    written out (\<open>null\<close> and \<open>0\<close> are falsy).
  \<^item> A JavaScript string is a \<open>string\<close>, one \<open>char\<close> for one code unit.
  \<^item> The fixed texts of the user interface are Chinese; they are the constructors of
    the datatypes \<open>Title\<close> and \<open>Message\<close> below, named after their meaning.
  \<^item> The functions of the JavaScript library whose result depends on locale or number
    syntax (\<open>parseFloat\<close>, \<open>String.prototype.toLowerCase\<close>) are the fields of a record
    \<open>Builtins\<close> passed to the handlers, so every theorem holds for whatever these
    functions compute.
  \<^item> A thrown exception is the left summand of a sum type.
\<close>

datatype JsError = TypeError | RangeError

record Builtins =
  parseFloat :: "string \<Rightarrow> real option"
  toLowerCase :: "string \<Rightarrow> string"

text \<open>Truthiness of a \<open>number | null\<close> and of a \<open>string | null | undefined\<close>.\<close>

fun truthy_number :: "nat option \<Rightarrow> bool" where
  "truthy_number None = False"
| "truthy_number (Some n) = (n \<noteq> 0)"

fun truthy_string :: "string option \<Rightarrow> bool" where
  "truthy_string None = False"
| "truthy_string (Some s) = (s \<noteq> [])"

text \<open>\<open>x || 0\<close> for a number \<open>x\<close> that may be \<open>NaN\<close>: \<open>NaN\<close> and \<open>0\<close> are falsy.\<close>

fun or_zero :: "real option \<Rightarrow> real" where
  "or_zero None = 0"
| "or_zero (Some v) = (if v = 0 then 0 else v)"

text \<open>\<open>hay.includes(needle)\<close>: \<open>needle\<close> occurs in \<open>hay\<close> as a contiguous run.\<close>

fun starts_with :: "string \<Rightarrow> string \<Rightarrow> bool" where
  "starts_with hay [] = True"
| "starts_with [] (c # cs) = False"
| "starts_with (h # hs) (c # cs) = (h = c \<and> starts_with hs cs)"

fun includes_str :: "string \<Rightarrow> string \<Rightarrow> bool" where
  "includes_str [] needle = (needle = [])"
| "includes_str (h # hs) needle = (starts_with (h # hs) needle \<or> includes_str hs needle)"

section \<open>Data of the consultation workbench\<close>

text \<open>An element of \<open>medicineResults\<close>, the answer of the medicine search.\<close>

record Medicine =
  m_id :: nat
  m_code :: string
  m_name :: string
  m_unit :: string
  m_selling_price :: string
  m_current_stock :: real
  m_is_compound :: bool

text \<open>\<open>interface PrescriptionItem\<close>; the optional fields are options.\<close>

record PrescriptionItem =
  item_id :: "nat option"
  medicine_id :: nat
  medicine_name :: string
  medicine_code :: string
  dosage :: real
  item_unit :: string
  unit_price :: real
  subtotal :: real
  stock_quantity :: "real option"
  is_compound :: "bool option"

record FormulaItem =
  f_medicine_id :: nat
  f_medicine_name :: string
  f_medicine_code :: string
  f_dosage :: real
  f_unit :: string

record ExperienceFormula =
  formula_id :: nat
  formula_name :: string
  formula_description :: string
  formula_items :: "FormulaItem list"

datatype PharmacyType = decoction | concentrated

record ExternalPharmacy =
  pharmacy_id :: nat
  pharmacy_name :: string
  pharmacy_type :: PharmacyType
  processing_fee :: real
  delivery_fee :: real

datatype DispensingMethod = internal | external_decoction | external_concentrated

record AdditionalCharge =
  charge_name :: string
  amount :: real

record ConsultationForm =
  chief_complaint :: string
  present_illness :: string
  inspection :: string
  tongue_appearance :: string
  pulse :: string
  tcm_diagnosis :: string
  syndrome_differentiation :: string
  treatment_principle :: string
  advice :: string

record PrescriptionSettings =
  total_doses :: nat
  doses_per_day :: nat
  days :: nat
  settings_name :: string

text \<open>The \<open>patient\<close> object of a queue entry, and the queue entry (a registration).\<close>

record QueuedPerson =
  person_id :: nat
  person_name :: string
  person_chart_number :: string
  person_gender :: string
  person_birth_date :: string
  person_phone :: "string option"
  person_allergies :: "string option"

record QueuePatient =
  queue_id :: nat
  queue_number :: nat
  patient :: QueuedPerson
  visit_type :: string
  queue_status :: string
  doctor_name :: "string option"

text \<open>The object \<open>selectPatient\<close> hands to \<open>setCurrentPatient\<close>.\<close>

record CurrentPatient =
  cp_id :: nat
  cp_name :: string
  cp_chart_number :: string
  cp_gender :: string
  cp_birth_date :: string
  cp_registration_id :: nat
  allergies :: "string option"

subsection \<open>Notifications and the allergy dialog\<close>

datatype NotificationType = success | error | warning | info

text \<open>
  The titles and messages the page passes to \<open>addNotification\<close>, in the order of the
  source: medicine already present; out of stock; formula applied; cannot save (formula);
  formula saved; saving failed; select a patient first; consultation record saved.
\<close>

datatype Title =
    MedicineExists
  | OutOfStock
  | FormulaApplied
  | CannotSave
  | FormulaSaved
  | SaveFailed
  | SelectPatientFirst
  | ConsultationSaved

text \<open>
  The messages: edit the dosage directly; the named medicine is out of stock and cannot be
  prescribed; the named formula was applied; check the data and retry; the patient has
  completed the consultation.
\<close>

datatype Message =
    EditDosageDirectly
  | OutOfStockCannotPrescribe string
  | AppliedFormula string
  | CheckDataAndRetry
  | PatientCompleted

record Notification =
  ntype :: NotificationType
  title :: Title
  message :: "Message option"

text \<open>
  \<open>allergyMessage\<close> is the empty string, the allergy text of the selected patient, or the
  template "warning: the patient is allergic to (name)".
\<close>

datatype AllergyMessage = PlainText string | AllergicTo string

subsection \<open>Network calls the page issues\<close>

record PrescriptionLine =
  line_medicine :: nat
  line_dosage :: real
  line_unit :: string
  line_unit_price :: real

record PrescriptionData =
  pd_consultation :: nat
  pd_name :: string
  pd_total_doses :: nat
  pd_doses_per_day :: nat
  pd_days :: nat
  pd_dispensing_method :: DispensingMethod
  pd_items :: "PrescriptionLine list"
  pd_external_pharmacy :: "nat option"

datatype Call =
    ConsultationCreate nat ConsultationForm
  | PrescriptionCreate PrescriptionData
  | RegistrationComplete nat
  | QueueFetch
  | PharmaciesFetch
  | HistoryFetch nat

subsection \<open>The state of the page\<close>

record HistoryRecord =
  history_id :: nat
  history_date :: string
  history_chief_complaint :: string
  history_tcm_diagnosis :: string
  prescription_count :: nat

record Page =
  prescriptionItems :: "PrescriptionItem list"
  medicineSearch :: string
  medicineResults :: "Medicine list"
  dispensingMethod :: DispensingMethod
  externalPharmacies :: "ExternalPharmacy list"
  selectedPharmacy :: "nat option"
  prescriptionSettings :: PrescriptionSettings
  showFormulaModal :: bool
  showAllergyWarning :: bool
  allergyMessage :: AllergyMessage
  additionalCharges :: "AdditionalCharge list"
  consultationForm :: ConsultationForm
  historyRecords :: "HistoryRecord list"
  loadingHistory :: bool
  saving :: bool
  currentPatient :: "CurrentPatient option"
  currentRegistrationId :: "nat option"
  currentConsultationId :: "nat option"
  notifications :: "Notification list"
  calls :: "Call list"

text \<open>
  The cells that the handlers below neither read nor write (\<open>queue\<close>, \<open>loading\<close>,
  \<open>activeTab\<close>, \<open>experienceFormulas\<close>, \<open>formulaSearch\<close>) are left out.
  \<open>notifications\<close> is the sequence of notifications handed to \<open>addNotification\<close> so far
  (the store gives each a random id and removes it after a delay; neither is modelled).
  \<open>calls\<close> is the sequence of requests the page has issued through the API client.
  A fetch (\<open>fetchQueue\<close>, \<open>fetchPatientHistory\<close>) that a handler starts without awaiting
  it contributes its synchronous part: the request is issued, and the flag set before the
  request is set. The arrival of its response is a later event of its own.
\<close>

definition addNotification :: "Notification \<Rightarrow> Page \<Rightarrow> Page" where
  "addNotification n s = s\<lparr>notifications := notifications s @ [n]\<rparr>"

definition emptyForm :: ConsultationForm where
  "emptyForm = \<lparr>chief_complaint = [], present_illness = [], inspection = [],
     tongue_appearance = [], pulse = [], tcm_diagnosis = [], syndrome_differentiation = [],
     treatment_principle = [], advice = []\<rparr>"

text \<open>
  The state after mounting, before any response has arrived. The default prescription name
  is a two-character Chinese word, given here by its UTF-8 bytes.
\<close>

definition initialPage :: Page where
  "initialPage = \<lparr>prescriptionItems = [], medicineSearch = [], medicineResults = [],
     dispensingMethod = internal, externalPharmacies = [], selectedPharmacy = None,
     prescriptionSettings = \<lparr>total_doses = 7, doses_per_day = 3, days = 7,
       settings_name = [CHR 0xE8, CHR 0x99, CHR 0x95, CHR 0xE6, CHR 0x96, CHR 0xB9]\<rparr>,
     showFormulaModal = False, showAllergyWarning = False, allergyMessage = PlainText [],
     additionalCharges = [], consultationForm = emptyForm, historyRecords = [],
     loadingHistory = False, saving = False, currentPatient = None, currentRegistrationId = None,
     currentConsultationId = None, notifications = [],
     calls = [QueueFetch, PharmaciesFetch]\<rparr>"

section \<open>The prescription line-item list\<close>

text \<open>\<open>selectPatient\<close>: shows the allergy text, fills the store, resets the workflow.\<close>

definition selectPatient :: "QueuePatient \<Rightarrow> Page \<Rightarrow> Page" where
  "selectPatient p s =
     (let s1 = (if truthy_string (person_allergies (patient p))
                then s\<lparr>allergyMessage := PlainText (the (person_allergies (patient p))),
                       showAllergyWarning := True\<rparr>
                else s)
      in s1\<lparr>currentPatient := Some \<lparr>cp_id = person_id (patient p),
                 cp_name = person_name (patient p),
                 cp_chart_number = person_chart_number (patient p),
                 cp_gender = person_gender (patient p),
                 cp_birth_date = person_birth_date (patient p),
                 cp_registration_id = queue_id p,
                 allergies = person_allergies (patient p)\<rparr>,
             currentRegistrationId := Some (queue_id p),
             prescriptionItems := [],
             additionalCharges := [],
             dispensingMethod := internal,
             selectedPharmacy := None,
             consultationForm := emptyForm,
             loadingHistory := True,
             calls := calls s1 @ [HistoryFetch (person_id (patient p))]\<rparr>)"

text \<open>The allergy check of \<open>addMedicine\<close>: raises the dialog, nothing else.\<close>

definition checkAllergy :: "Builtins \<Rightarrow> Medicine \<Rightarrow> Page \<Rightarrow> Page" where
  "checkAllergy js medicine s =
     (case currentPatient s of
        None \<Rightarrow> s
      | Some p \<Rightarrow>
          if truthy_string (allergies p) then
            (if includes_str (toLowerCase js (the (allergies p))) (toLowerCase js (m_name medicine))
             then s\<lparr>allergyMessage := AllergicTo (m_name medicine), showAllergyWarning := True\<rparr>
             else s)
          else s)"

definition newItem :: "Builtins \<Rightarrow> Medicine \<Rightarrow> PrescriptionItem" where
  "newItem js medicine =
     \<lparr>item_id = None,
      medicine_id = m_id medicine,
      medicine_name = m_name medicine,
      medicine_code = m_code medicine,
      dosage = 1,
      item_unit = m_unit medicine,
      unit_price = or_zero (parseFloat js (m_selling_price medicine)),
      subtotal = or_zero (parseFloat js (m_selling_price medicine)),
      stock_quantity = Some (m_current_stock medicine),
      is_compound = Some (m_is_compound medicine)\<rparr>"

definition addMedicine :: "Builtins \<Rightarrow> Medicine \<Rightarrow> Page \<Rightarrow> Page" where
  "addMedicine js medicine s =
     (case find (\<lambda>item. medicine_id item = m_id medicine) (prescriptionItems s) of
        Some existing \<Rightarrow>
          addNotification \<lparr>ntype = warning, title = MedicineExists,
                           message = Some EditDosageDirectly\<rparr> s
      | None \<Rightarrow>
          if dispensingMethod s = internal \<and> m_current_stock medicine \<le> 0 then
            addNotification \<lparr>ntype = error, title = OutOfStock,
                             message = Some (OutOfStockCannotPrescribe (m_name medicine))\<rparr> s
          else
            (let s1 = checkAllergy js medicine s
             in s1\<lparr>prescriptionItems := prescriptionItems s @ [newItem js medicine],
                    medicineSearch := [],
                    medicineResults := []\<rparr>))"

text \<open>
  \<open>updateDosage\<close>: \<open>updated[index]\<close> is \<open>undefined\<close> outside the list, and the assignment
  to its \<open>dosage\<close> throws a \<open>TypeError\<close> before anything is written.
\<close>

definition updateDosage :: "nat \<Rightarrow> real \<Rightarrow> PrescriptionItem list \<Rightarrow> JsError + PrescriptionItem list" where
  "updateDosage index d items =
     (if index < length items
      then Inr (items[index := (items ! index)\<lparr>dosage := d,
                                 subtotal := d * unit_price (items ! index)\<rparr>])
      else Inl TypeError)"

text \<open>\<open>filter((_, i) => i !== index)\<close>: the filter sees every element with its position.\<close>

definition removeMedicine :: "nat \<Rightarrow> PrescriptionItem list \<Rightarrow> PrescriptionItem list" where
  "removeMedicine index items =
     map snd (filter (\<lambda>(i, item). i \<noteq> index) (enumerate 0 items))"

definition formulaItem :: "FormulaItem \<Rightarrow> PrescriptionItem" where
  "formulaItem item =
     \<lparr>item_id = None,
      medicine_id = f_medicine_id item,
      medicine_name = f_medicine_name item,
      medicine_code = f_medicine_code item,
      dosage = f_dosage item,
      item_unit = f_unit item,
      unit_price = 0,
      subtotal = 0,
      stock_quantity = None,
      is_compound = None\<rparr>"

definition applyExperienceFormula :: "ExperienceFormula \<Rightarrow> Page \<Rightarrow> Page" where
  "applyExperienceFormula formula s =
     addNotification \<lparr>ntype = success, title = FormulaApplied,
                      message = Some (AppliedFormula (formula_name formula))\<rparr>
       (s\<lparr>prescriptionItems := prescriptionItems s @ map formulaItem (formula_items formula),
          showFormulaModal := False\<rparr>)"

text \<open>
  The public operations on the line-item list, as events of the page. An exception in an
  event handler leaves the state as it was.
\<close>

datatype Event =
    AddMedicine Medicine
  | UpdateDosage nat real
  | RemoveMedicine nat
  | ApplyExperienceFormula ExperienceFormula
  | SelectPatient QueuePatient

fun handle :: "Builtins \<Rightarrow> Event \<Rightarrow> Page \<Rightarrow> Page" where
  "handle js (AddMedicine medicine) s = addMedicine js medicine s"
| "handle js (UpdateDosage index d) s =
     (case updateDosage index d (prescriptionItems s) of
        Inl e \<Rightarrow> s
      | Inr updated \<Rightarrow> s\<lparr>prescriptionItems := updated\<rparr>)"
| "handle js (RemoveMedicine index) s =
     s\<lparr>prescriptionItems := removeMedicine index (prescriptionItems s)\<rparr>"
| "handle js (ApplyExperienceFormula formula) s = applyExperienceFormula formula s"
| "handle js (SelectPatient p) s = selectPatient p s"

fun run :: "Builtins \<Rightarrow> Event list \<Rightarrow> Page \<Rightarrow> Page" where
  "run js [] s = s"
| "run js (e # es) s = run js es (handle js e s)"

text \<open>A sequence of \<open>updateDosage\<close> calls; the first exception ends it.\<close>

fun updateDosages :: "(nat \<times> real) list \<Rightarrow> PrescriptionItem list \<Rightarrow> JsError + PrescriptionItem list" where
  "updateDosages [] items = Inr items"
| "updateDosages ((index, d) # rest) items =
     (case updateDosage index d items of
        Inl e \<Rightarrow> Inl e
      | Inr updated \<Rightarrow> updateDosages rest updated)"

section \<open>Fee aggregation\<close>

definition setDispensingMethod :: "DispensingMethod \<Rightarrow> Page \<Rightarrow> Page" where
  "setDispensingMethod m s = s\<lparr>dispensingMethod := m\<rparr>"

text \<open>The \<open>onChange\<close> of the pharmacy selector: \<open>Number(e.target.value) || null\<close>.\<close>

definition setSelectedPharmacy :: "nat option \<Rightarrow> Page \<Rightarrow> Page" where
  "setSelectedPharmacy v s = s\<lparr>selectedPharmacy := (if truthy_number v then v else None)\<rparr>"

definition medicineTotal :: "Page \<Rightarrow> real" where
  "medicineTotal s = foldl (\<lambda>sum item. sum + subtotal item) 0 (prescriptionItems s)"

definition additionalTotal :: "Page \<Rightarrow> real" where
  "additionalTotal s = foldl (\<lambda>sum item. sum + amount item) 0 (additionalCharges s)"

definition selectedPharmacyData :: "Page \<Rightarrow> ExternalPharmacy option" where
  "selectedPharmacyData s =
     find (\<lambda>p. Some (pharmacy_id p) = selectedPharmacy s) (externalPharmacies s)"

text \<open>
  \<open>dispensingMethod !== 'internal' && selectedPharmacyData ? fee : 0\<close>: the conjunction is
  the condition of the conditional; a found pharmacy is an object, hence truthy.
\<close>

definition processingFee :: "Page \<Rightarrow> real" where
  "processingFee s =
     (case (if dispensingMethod s \<noteq> internal then selectedPharmacyData s else None) of
        Some p \<Rightarrow> processing_fee p
      | None \<Rightarrow> 0)"

definition deliveryFee :: "Page \<Rightarrow> real" where
  "deliveryFee s =
     (case (if dispensingMethod s \<noteq> internal then selectedPharmacyData s else None) of
        Some p \<Rightarrow> delivery_fee p
      | None \<Rightarrow> 0)"

definition totalAmount :: "Page \<Rightarrow> real" where
  "totalAmount s = medicineTotal s + additionalTotal s + processingFee s + deliveryFee s"


text \<open>The invariant of a line item that \<open>updateDosage\<close> restores.\<close>

definition consistent :: "PrescriptionItem \<Rightarrow> bool" where
  "consistent item \<longleftrightarrow> subtotal item = dosage item * unit_price item"

section \<open>The save sequence\<close>

text \<open>
  What the backend answers to the three awaited requests of \<open>saveConsultation\<close>: the id of
  the created consultation (\<open>None\<close> when the request is rejected), and for the other two
  whether the request succeeds. The three requests of one run are distinct, so a function
  of the request describes any behaviour of the backend during the run.
\<close>

record Network =
  post_consultation :: "nat \<Rightarrow> ConsultationForm \<Rightarrow> nat option"
  post_prescription :: "PrescriptionData \<Rightarrow> bool"
  post_complete :: "nat \<Rightarrow> bool"

definition issue :: "Call \<Rightarrow> Page \<Rightarrow> Page" where
  "issue c s = s\<lparr>calls := calls s @ [c]\<rparr>"

text \<open>The requests issued between an earlier state and a later one.\<close>

definition newCalls :: "Page \<Rightarrow> Page \<Rightarrow> Call list" where
  "newCalls s s' = drop (length (calls s)) (calls s')"

definition prescriptionData :: "nat \<Rightarrow> Page \<Rightarrow> PrescriptionData" where
  "prescriptionData consultation s =
     \<lparr>pd_consultation = consultation,
      pd_name = settings_name (prescriptionSettings s),
      pd_total_doses = total_doses (prescriptionSettings s),
      pd_doses_per_day = doses_per_day (prescriptionSettings s),
      pd_days = days (prescriptionSettings s),
      pd_dispensing_method = dispensingMethod s,
      pd_items = map (\<lambda>item. \<lparr>line_medicine = medicine_id item, line_dosage = dosage item,
                                line_unit = item_unit item, line_unit_price = unit_price item\<rparr>)
                   (prescriptionItems s),
      pd_external_pharmacy =
        (if dispensingMethod s \<noteq> internal \<and> truthy_number (selectedPharmacy s)
         then selectedPharmacy s else None)\<rparr>"

text \<open>The \<open>catch\<close> block followed by the \<open>finally\<close> block.\<close>

definition saveFailed :: "Page \<Rightarrow> Page" where
  "saveFailed s =
     (addNotification \<lparr>ntype = error, title = SaveFailed,
                       message = Some CheckDataAndRetry\<rparr> s)\<lparr>saving := False\<rparr>"

text \<open>The end of the \<open>try\<close> block followed by the \<open>finally\<close> block.\<close>

definition saveSucceeded :: "Page \<Rightarrow> Page" where
  "saveSucceeded s =
     (issue QueueFetch
        ((addNotification \<lparr>ntype = success, title = ConsultationSaved,
                           message = Some PatientCompleted\<rparr> s)
           \<lparr>currentPatient := None, currentRegistrationId := None,
            currentConsultationId := None,
            prescriptionItems := [], additionalCharges := [], historyRecords := []\<rparr>))
       \<lparr>saving := False\<rparr>"

definition saveConsultation :: "Network \<Rightarrow> Page \<Rightarrow> Page" where
  "saveConsultation net s =
     (if \<not> truthy_number (currentRegistrationId s) then
        addNotification \<lparr>ntype = error, title = SelectPatientFirst, message = None\<rparr> s
      else
        (let registration = the (currentRegistrationId s);
             s1 = issue (ConsultationCreate registration (consultationForm s))
                    (s\<lparr>saving := True\<rparr>)
         in case post_consultation net registration (consultationForm s) of
              None \<Rightarrow> saveFailed s1
            | Some consultation \<Rightarrow>
                (let (created, s2) =
                       (if length (prescriptionItems s) > 0
                        then (post_prescription net (prescriptionData consultation s),
                              issue (PrescriptionCreate (prescriptionData consultation s)) s1)
                        else (True, s1))
                 in if \<not> created then saveFailed s2
                    else (let s3 = issue (RegistrationComplete registration) s2
                          in if post_complete net registration then saveSucceeded s3
                             else saveFailed s3))))"

section \<open>The API client: token refresh on 401\<close>

text \<open>
  The two entries of \<open>localStorage\<close> the client uses, the address of the window, the
  requests that left the browser, and the answers the network will give to the next
  requests, in order (a request sent when none is left gets no response, as on a timeout).
\<close>

record RequestConfig =
  url :: string
  Authorization :: "string option"
  retry :: bool

datatype Wire = ApiRequest RequestConfig | TokenRefresh string

text \<open>A response with its data, or an error with \<open>error.response?.status\<close>.\<close>

datatype Reply = Response string | Failure "nat option"

datatype Outcome = Resolved string | Rejected "nat option"

record Browser =
  access_token :: "string option"
  refresh_token :: "string option"
  location_href :: string
  sent :: "Wire list"
  replies :: "Reply list"

definition send :: "Wire \<Rightarrow> Browser \<Rightarrow> Reply \<times> Browser" where
  "send m b =
     (case replies b of
        [] \<Rightarrow> (Failure None, b\<lparr>sent := sent b @ [m]\<rparr>)
      | r # rs \<Rightarrow> (r, b\<lparr>sent := sent b @ [m], replies := rs\<rparr>))"

text \<open>The request interceptor: adds the bearer token when one is stored.\<close>

definition requestInterceptor :: "Browser \<Rightarrow> RequestConfig \<Rightarrow> RequestConfig" where
  "requestInterceptor b config =
     (if truthy_string (access_token b)
      then config\<lparr>Authorization := Some (''Bearer '' @ the (access_token b))\<rparr>
      else config)"

text \<open>
  \<open>api(config)\<close> with both interceptors. The response interceptor calls \<open>api\<close> again for
  the retry; the promise of the retry is returned from inside the \<open>try\<close> block without
  \<open>await\<close>, so its rejection is not caught there. The data of the refresh response stands
  for its \<open>access\<close> field.
\<close>

function api :: "RequestConfig \<Rightarrow> Browser \<Rightarrow> Outcome \<times> Browser" where
  "api config b =
     (let originalRequest = requestInterceptor b config
      in case send (ApiRequest originalRequest) b of
           (Response d, b1) \<Rightarrow> (Resolved d, b1)
         | (Failure status, b1) \<Rightarrow>
             if status = Some 401 \<and> \<not> retry originalRequest then
               (if truthy_string (refresh_token b1) then
                  (case send (TokenRefresh (the (refresh_token b1))) b1 of
                     (Response access, b2) \<Rightarrow>
                       api (originalRequest\<lparr>retry := True,
                                            Authorization := Some (''Bearer '' @ access)\<rparr>)
                           (b2\<lparr>access_token := Some access\<rparr>)
                   | (Failure refreshError, b2) \<Rightarrow>
                       (Rejected status,
                        b2\<lparr>access_token := None, refresh_token := None,
                           location_href := ''/login''\<rparr>))
                else (Rejected status, b1))
             else (Rejected status, b1))"
  by pat_completeness auto
termination
  by (relation "measure (\<lambda>(config, b). if retry config then 0 else 1)")
    (auto simp: requestInterceptor_def split: if_splits)

declare api.simps [simp del]

section \<open>Masking a phone number\<close>

text \<open>\<open>s.slice(start, end)\<close> and \<open>s.repeat(count)\<close> of the JavaScript library.\<close>

definition slice_index :: "nat \<Rightarrow> int \<Rightarrow> nat" where
  "slice_index len i = (if i < 0 then nat (max (int len + i) 0) else min (nat i) len)"

definition slice :: "string \<Rightarrow> int \<Rightarrow> int option \<Rightarrow> string" where
  "slice s start stop =
     (let lo = slice_index (length s) start;
          hi = (case stop of None \<Rightarrow> length s | Some e \<Rightarrow> slice_index (length s) e)
      in take (hi - lo) (drop lo s))"

definition repeat :: "string \<Rightarrow> int \<Rightarrow> JsError + string" where
  "repeat s count = (if count < 0 then Inl RangeError else Inr (concat (replicate (nat count) s)))"

definition maskPhone :: "string \<Rightarrow> JsError + string" where
  "maskPhone phone =
     (if phone = [] \<or> length phone < 4 then Inr phone
      else case repeat ''*'' (int (length phone) - 7) of
             Inl e \<Rightarrow> Inl e
           | Inr stars \<Rightarrow> Inr (slice phone 0 (Some 4) @ stars @ slice phone (- 3) None))"


section \<open>Concrete data for evaluation\<close>

text \<open>
  An instance of the library functions: it agrees with \<open>parseFloat\<close> on the non-empty
  strings of decimal digits (and answers \<open>NaN\<close> on every other string), and with
  \<open>toLowerCase\<close> on ASCII text.
\<close>

fun digitsValue :: "nat \<Rightarrow> string \<Rightarrow> nat option" where
  "digitsValue acc [] = Some acc"
| "digitsValue acc (c # cs) =
     (if 48 \<le> (of_char c :: nat) \<and> (of_char c :: nat) \<le> 57
      then digitsValue (10 * acc + ((of_char c :: nat) - 48)) cs
      else None)"

definition lowerChar :: "char \<Rightarrow> char" where
  "lowerChar c =
     (if 65 \<le> (of_char c :: nat) \<and> (of_char c :: nat) \<le> 90
      then char_of ((of_char c :: nat) + 32) else c)"

definition asciiBuiltins :: Builtins where
  "asciiBuiltins =
     \<lparr>parseFloat = (\<lambda>s. if s = [] then None else map_option real (digitsValue 0 s)),
      toLowerCase = map lowerChar\<rparr>"

definition ginseng :: Medicine where
  "ginseng = \<lparr>m_id = 1, m_code = ''M001'', m_name = ''Ginseng'', m_unit = ''g'',
     m_selling_price = ''12'', m_current_stock = 5, m_is_compound = False\<rparr>"

definition tonic :: ExperienceFormula where
  "tonic = \<lparr>formula_id = 3, formula_name = ''Tonic'', formula_description = [],
     formula_items = [\<lparr>f_medicine_id = 1, f_medicine_name = ''Ginseng'',
       f_medicine_code = ''M001'', f_dosage = 9, f_unit = ''g''\<rparr>]\<rparr>"

definition visitor :: QueuePatient where
  "visitor = \<lparr>queue_id = 7, queue_number = 1,
     patient = \<lparr>person_id = 11, person_name = ''Chan'', person_chart_number = ''C0011'',
       person_gender = ''male'', person_birth_date = ''1980-01-01'', person_phone = None,
       person_allergies = Some ''Penicillin, GINSENG''\<rparr>,
     visit_type = ''first_visit'', queue_status = ''waiting'', doctor_name = None\<rparr>"

text \<open>The line items and the charge of the examples of the specification.\<close>

definition lineItem :: "nat \<Rightarrow> real \<Rightarrow> real \<Rightarrow> PrescriptionItem" where
  "lineItem i d p = \<lparr>item_id = None, medicine_id = i, medicine_name = [], medicine_code = [],
     dosage = d, item_unit = ''g'', unit_price = p, subtotal = d * p,
     stock_quantity = None, is_compound = None\<rparr>"

definition billedPage :: Page where
  "billedPage = initialPage\<lparr>prescriptionItems := [lineItem 1 2 10, lineItem 2 3 5],
     additionalCharges := [\<lparr>charge_name = ''fee'', amount = 20\<rparr>],
     externalPharmacies := [\<lparr>pharmacy_id = 4, pharmacy_name = ''Herbs'',
       pharmacy_type = decoction, processing_fee = 15, delivery_fee = 25\<rparr>]\<rparr>"

definition acceptingNetwork :: Network where
  "acceptingNetwork = \<lparr>post_consultation = (\<lambda>registration form. Some 42),
     post_prescription = (\<lambda>data. True), post_complete = (\<lambda>registration. True)\<rparr>"

definition rejectingNetwork :: Network where
  "rejectingNetwork = \<lparr>post_consultation = (\<lambda>registration form. None),
     post_prescription = (\<lambda>data. True), post_complete = (\<lambda>registration. True)\<rparr>"

definition loggedIn :: "Reply list \<Rightarrow> Browser" where
  "loggedIn rs = \<lparr>access_token = Some ''old'', refresh_token = Some ''refresh'',
     location_href = ''/consultation'', sent = [], replies = rs\<rparr>"

definition getQueue :: RequestConfig where
  "getQueue = \<lparr>url = ''/registration/queue/'', Authorization = None, retry = False\<rparr>"

section \<open>Properties of the line-item list\<close>

lemma filter_enumerate_skip:
  "map snd (filter (\<lambda>(i, item). i \<noteq> n + k) (enumerate n xs)) = take k xs @ drop (Suc k) xs"
proof (induction xs arbitrary: n k)
  case Nil
  then show ?case by simp
next
  case (Cons x xs)
  show ?case
  proof (cases k)
    case 0
    have "filter (\<lambda>(i, item). i \<noteq> n) (enumerate (Suc n) xs) = enumerate (Suc n) xs"
      by (rule filter_True) (auto simp: in_set_enumerate_eq)
    with 0 show ?thesis by simp
  next
    case (Suc j)
    with Cons.IH [of "Suc n" j] show ?thesis by simp
  qed
qed

lemma removeMedicine_take_drop:
  "removeMedicine index items = take index items @ drop (Suc index) items"
  using filter_enumerate_skip [of 0 index items] by (simp add: removeMedicine_def)

text \<open>\<open>includes_str\<close> decides containment as a contiguous run.\<close>

lemma starts_with_iff: "starts_with hay needle \<longleftrightarrow> (\<exists>ss. hay = needle @ ss)"
  by (induction hay needle rule: starts_with.induct) auto

lemma includes_str_iff: "includes_str hay needle \<longleftrightarrow> (\<exists>ps ss. hay = ps @ needle @ ss)"
proof (induction hay)
  case Nil
  then show ?case by auto
next
  case (Cons h hs)
  show ?case
  proof
    assume "includes_str (h # hs) needle"
    then consider "starts_with (h # hs) needle" | "includes_str hs needle" by auto
    then show "\<exists>ps ss. h # hs = ps @ needle @ ss"
    proof cases
      case 1
      then obtain ss where "h # hs = needle @ ss" by (auto simp: starts_with_iff)
      then have "h # hs = [] @ needle @ ss" by simp
      then show ?thesis by blast
    next
      case 2
      with Cons.IH obtain ps ss where "hs = ps @ needle @ ss" by blast
      then have "h # hs = (h # ps) @ needle @ ss" by simp
      then show ?thesis by blast
    qed
  next
    assume "\<exists>ps ss. h # hs = ps @ needle @ ss"
    then obtain ps ss where eq: "h # hs = ps @ needle @ ss" by blast
    show "includes_str (h # hs) needle"
    proof (cases ps)
      case Nil
      with eq have "starts_with (h # hs) needle" by (auto simp: starts_with_iff)
      then show ?thesis by simp
    next
      case (Cons p ps')
      with eq have "hs = ps' @ needle @ ss" by simp
      with Cons.IH have "includes_str hs needle" by blast
      then show ?thesis by simp
    qed
  qed
qed

lemma foldl_add_sum_list:
  "foldl (\<lambda>sum x. sum + f x) (a::real) xs = a + sum_list (map f xs)"
  by (induction xs arbitrary: a) (simp_all add: add.assoc)

lemma updateDosage_length:
  "updateDosage index d items = Inr updated \<Longrightarrow> length updated = length items"
  by (auto simp: updateDosage_def split: if_splits)

lemma updateDosage_consistent:
  assumes "updateDosage index d items = Inr updated" and "j < length items"
    and "j = index \<or> consistent (items ! j)"
  shows "consistent (updated ! j)"
  using assms by (auto simp: updateDosage_def consistent_def nth_list_update split: if_splits)

lemma updateDosages_consistent:
  assumes "updateDosages cs items = Inr final" and "j < length items"
    and "j \<in> fst ` set cs \<or> consistent (items ! j)"
  shows "consistent (final ! j)"
  using assms
proof (induction cs arbitrary: items)
  case Nil
  then show ?case by simp
next
  case (Cons c cs)
  obtain index d where c: "c = (index, d)" by (cases c)
  from Cons.prems(1) c obtain updated where
    u: "updateDosage index d items = Inr updated" and r: "updateDosages cs updated = Inr final"
    by (auto split: sum.splits)
  have len: "j < length updated" using u Cons.prems(2) by (simp add: updateDosage_length)
  show ?case
  proof (cases "j \<in> fst ` set cs")
    case True
    with Cons.IH [OF r len] show ?thesis by blast
  next
    case False
    with Cons.prems(3) c have "j = index \<or> consistent (items ! j)" by auto
    with u Cons.prems(2) have "consistent (updated ! j)" by (rule updateDosage_consistent)
    with Cons.IH [OF r len] show ?thesis by blast
  qed
qed

lemma updateDosages_succeeds:
  "\<forall>(index, d) \<in> set cs. index < length items \<Longrightarrow>
     \<exists>final. updateDosages cs items = Inr final \<and> length final = length items"
proof (induction cs arbitrary: items)
  case Nil
  then show ?case by simp
next
  case (Cons c cs)
  obtain index d where c: "c = (index, d)" by (cases c)
  with Cons.prems have i: "index < length items" by simp
  define updated where
    "updated = items[index := (items ! index)\<lparr>dosage := d, subtotal := d * unit_price (items ! index)\<rparr>]"
  have u: "updateDosage index d items = Inr updated"
    using i by (simp add: updateDosage_def updated_def)
  have "\<forall>(index, d) \<in> set cs. index < length updated"
    using Cons.prems by (auto simp: updated_def)
  from Cons.IH [OF this] obtain final where
    "updateDosages cs updated = Inr final" "length final = length updated" by blast
  with u c show ?case by (simp add: updated_def)
qed

text \<open>
  Claim C7. \<open>updateDosage(index, dosage)\<close> at an index of the list replaces the dosage of
  that item and sets its subtotal to dosage times unit price, whatever the dosage is (zero
  and negative values included: no dosage is rejected). After any sequence of such calls
  every item that a call has updated satisfies subtotal = dosage * unit price.
\<close>

theorem updateDosage_recomputes_subtotal:
  "(index < length items \<longrightarrow>
      updateDosage index d items =
        Inr (items[index := (items ! index)\<lparr>dosage := d,
                               subtotal := d * unit_price (items ! index)\<rparr>])) \<and>
   ((\<forall>(index, d) \<in> set cs. index < length items) \<longrightarrow>
      (\<exists>final. updateDosages cs items = Inr final \<and> length final = length items \<and>
         (\<forall>(index, d) \<in> set cs.
            subtotal (final ! index) = dosage (final ! index) * unit_price (final ! index))))"
proof (intro conjI impI)
  assume "index < length items"
  then show "updateDosage index d items =
        Inr (items[index := (items ! index)\<lparr>dosage := d,
                               subtotal := d * unit_price (items ! index)\<rparr>])"
    by (simp add: updateDosage_def)
next
  assume valid: "\<forall>(index, d) \<in> set cs. index < length items"
  from updateDosages_succeeds [OF valid] obtain final where
    f: "updateDosages cs items = Inr final" and len: "length final = length items" by blast
  have "\<forall>(index, d) \<in> set cs.
      subtotal (final ! index) = dosage (final ! index) * unit_price (final ! index)"
  proof (clarify)
    fix index d assume m: "(index, d) \<in> set cs"
    with valid have "index < length items" by auto
    moreover from m have "index \<in> fst ` set cs" by force
    ultimately have "consistent (final ! index)"
      using updateDosages_consistent [OF f] by blast
    then show "subtotal (final ! index) = dosage (final ! index) * unit_price (final ! index)"
      by (simp add: consistent_def)
  qed
  with f len show "\<exists>final. updateDosages cs items = Inr final \<and> length final = length items \<and>
         (\<forall>(index, d) \<in> set cs.
            subtotal (final ! index) = dosage (final ! index) * unit_price (final ! index))"
    by blast
qed

theorem updateDosage_recomputes_subtotal_witness:
  "updateDosage 1 (- 2) [lineItem 1 2 10, lineItem 2 3 5] =
     Inr [lineItem 1 2 10, lineItem 2 (- 2) 5] \<and>
   updateDosages [(1, 0), (0, 4), (1, - 2)] [lineItem 1 2 10, lineItem 2 3 5] =
     Inr [lineItem 1 4 10, lineItem 2 (- 2) 5]"
proof -
  have i: "(1::nat) < length [lineItem 1 2 10, lineItem 2 3 5]" by simp
  have one: "updateDosage 1 (- 2) [lineItem 1 2 10, lineItem 2 3 5] =
     Inr [lineItem 1 2 10, lineItem 2 (- 2) 5]"
    using updateDosage_recomputes_subtotal [of 1 "[lineItem 1 2 10, lineItem 2 3 5]" "- 2" "[]"] i
    by (simp add: lineItem_def)
  have "updateDosages [(1, 0), (0, 4), (1, - 2)] [lineItem 1 2 10, lineItem 2 3 5] =
     Inr [lineItem 1 4 10, lineItem 2 (- 2) 5]"
    by (simp add: updateDosage_def lineItem_def)
  with one show ?thesis by simp
qed

text \<open>
  Claim C8. Removing a valid index \<open>i\<close> from a list of length \<open>n\<close> gives a list of length
  \<open>n - 1\<close> that holds the items before \<open>i\<close> followed by the items after \<open>i\<close>, in their
  original order.
\<close>

theorem removeMedicine_keeps_the_rest:
  assumes "index < length items"
  shows "length (removeMedicine index items) = length items - 1 \<and>
         removeMedicine index items = take index items @ drop (Suc index) items \<and>
         (\<forall>j < length items - 1.
            removeMedicine index items ! j = (if j < index then items ! j else items ! Suc j))"
proof (intro conjI allI impI)
  show eq: "removeMedicine index items = take index items @ drop (Suc index) items"
    by (rule removeMedicine_take_drop)
  show "length (removeMedicine index items) = length items - 1"
    using assms by (simp add: eq)
  fix j assume "j < length items - 1"
  then show "removeMedicine index items ! j = (if j < index then items ! j else items ! Suc j)"
    using assms by (auto simp: eq nth_append min_def)
qed

theorem removeMedicine_keeps_the_rest_witness:
  "(1::nat) < length [lineItem 1 2 10, lineItem 2 3 5, lineItem 3 1 1] \<and>
   removeMedicine 1 [lineItem 1 2 10, lineItem 2 3 5, lineItem 3 1 1] =
     [lineItem 1 2 10, lineItem 3 1 1]"
proof -
  have i: "(1::nat) < length [lineItem 1 2 10, lineItem 2 3 5, lineItem 3 1 1]" by simp
  from removeMedicine_keeps_the_rest [OF i] show ?thesis by simp
qed

lemma checkAllergy_fields:
  "prescriptionItems (checkAllergy js medicine s) = prescriptionItems s"
  "notifications (checkAllergy js medicine s) = notifications s"
  by (simp_all add: checkAllergy_def split: option.splits)

text \<open>
  Claim C3. When a line item with the medicine's id exists, or the dispensing method is
  internal and the stock of the medicine is not positive, \<open>addMedicine\<close> changes nothing
  but the notifications, to which it adds one (of type warning for the duplicate, of type
  error for the missing stock). In every other case the list grows by exactly one item at
  its end, with dosage 1 and a subtotal equal to its unit price, and no notification is
  added.
\<close>

theorem addMedicine_contract:
  "(if (\<exists>item \<in> set (prescriptionItems s). medicine_id item = m_id medicine) \<or>
       (dispensingMethod s = internal \<and> m_current_stock medicine \<le> 0)
    then (\<exists>n. addMedicine js medicine s = s\<lparr>notifications := notifications s @ [n]\<rparr> \<and>
               ntype n =
                 (if \<exists>item \<in> set (prescriptionItems s). medicine_id item = m_id medicine
                  then warning else error)) \<and>
         prescriptionItems (addMedicine js medicine s) = prescriptionItems s
    else (\<exists>item. prescriptionItems (addMedicine js medicine s) = prescriptionItems s @ [item] \<and>
                  medicine_id item = m_id medicine \<and> dosage item = 1 \<and>
                  unit_price item = or_zero (parseFloat js (m_selling_price medicine)) \<and>
                  subtotal item = unit_price item) \<and>
         notifications (addMedicine js medicine s) = notifications s)"
proof (cases "find (\<lambda>item. medicine_id item = m_id medicine) (prescriptionItems s)")
  case (Some existing)
  then have dup: "\<exists>item \<in> set (prescriptionItems s). medicine_id item = m_id medicine"
    by (auto simp: find_Some_iff)
  define n where "n = \<lparr>ntype = warning, title = MedicineExists,
                          message = Some EditDosageDirectly\<rparr>"
  have "addMedicine js medicine s = s\<lparr>notifications := notifications s @ [n]\<rparr>"
    using Some by (simp add: addMedicine_def addNotification_def n_def)
  moreover have "ntype n = warning" by (simp add: n_def)
  ultimately have "\<exists>n. addMedicine js medicine s = s\<lparr>notifications := notifications s @ [n]\<rparr> \<and>
                      ntype n = warning"
    by blast
  moreover have "prescriptionItems (addMedicine js medicine s) = prescriptionItems s"
    using Some by (simp add: addMedicine_def addNotification_def)
  ultimately show ?thesis using dup by simp
next
  case None
  then have nodup: "\<not> (\<exists>item \<in> set (prescriptionItems s). medicine_id item = m_id medicine)"
    by (auto simp: find_None_iff)
  show ?thesis
  proof (cases "dispensingMethod s = internal \<and> m_current_stock medicine \<le> 0")
    case True
    define n where "n = \<lparr>ntype = error, title = OutOfStock,
                            message = Some (OutOfStockCannotPrescribe (m_name medicine))\<rparr>"
    have "addMedicine js medicine s = s\<lparr>notifications := notifications s @ [n]\<rparr>"
      using None True by (simp add: addMedicine_def addNotification_def n_def)
    moreover have "ntype n = error" by (simp add: n_def)
    ultimately have "\<exists>n. addMedicine js medicine s = s\<lparr>notifications := notifications s @ [n]\<rparr> \<and>
                        ntype n = error"
      by blast
    moreover have "prescriptionItems (addMedicine js medicine s) = prescriptionItems s"
      using None True by (simp add: addMedicine_def addNotification_def)
    ultimately show ?thesis using nodup True by simp
  next
    case False
    with None nodup show ?thesis
      by (auto simp: addMedicine_def Let_def newItem_def checkAllergy_fields)
  qed
qed

theorem addMedicine_contract_witness:
  "prescriptionItems (addMedicine asciiBuiltins ginseng initialPage) =
     [\<lparr>item_id = None, medicine_id = 1, medicine_name = ''Ginseng'', medicine_code = ''M001'',
       dosage = 1, item_unit = ''g'', unit_price = 12, subtotal = 12,
       stock_quantity = Some 5, is_compound = Some False\<rparr>] \<and>
   prescriptionItems (addMedicine asciiBuiltins ginseng
       (addMedicine asciiBuiltins ginseng initialPage)) =
     prescriptionItems (addMedicine asciiBuiltins ginseng initialPage)"
proof -
  have price: "parseFloat asciiBuiltins ''12'' = Some 12"
    by (simp add: asciiBuiltins_def)
  have first: "prescriptionItems (addMedicine asciiBuiltins ginseng initialPage) =
     [\<lparr>item_id = None, medicine_id = 1, medicine_name = ''Ginseng'', medicine_code = ''M001'',
       dosage = 1, item_unit = ''g'', unit_price = 12, subtotal = 12,
       stock_quantity = Some 5, is_compound = Some False\<rparr>]"
    using price
    by (simp add: addMedicine_def initialPage_def ginseng_def newItem_def checkAllergy_def)
  have "\<exists>item \<in> set (prescriptionItems (addMedicine asciiBuiltins ginseng initialPage)).
          medicine_id item = m_id ginseng"
    unfolding first by (simp add: ginseng_def)
  with addMedicine_contract [of "addMedicine asciiBuiltins ginseng initialPage" ginseng asciiBuiltins]
  have "prescriptionItems (addMedicine asciiBuiltins ginseng
       (addMedicine asciiBuiltins ginseng initialPage)) =
     prescriptionItems (addMedicine asciiBuiltins ginseng initialPage)"
    by simp
  with first show ?thesis by simp
qed

text \<open>
  Claim C9. When \<open>addMedicine\<close> passes its two guards and the allergy text recorded for the
  current patient contains the name of the medicine, case ignored, the allergy dialog is
  raised with the warning for that medicine, and the item is appended all the same: the
  list after the call is the list the call produces when no patient, hence no allergy, is
  known.
\<close>

theorem allergy_warning_does_not_block:
  assumes "\<not> (\<exists>item \<in> set (prescriptionItems s). medicine_id item = m_id medicine)"
    and "\<not> (dispensingMethod s = internal \<and> m_current_stock medicine \<le> 0)"
    and "currentPatient s = Some p" and "allergies p = Some recorded" and "recorded \<noteq> []"
    and "\<exists>before after.
           toLowerCase js recorded = before @ toLowerCase js (m_name medicine) @ after"
  shows "showAllergyWarning (addMedicine js medicine s) \<and>
         allergyMessage (addMedicine js medicine s) = AllergicTo (m_name medicine) \<and>
         prescriptionItems (addMedicine js medicine s) =
           prescriptionItems s @ [newItem js medicine] \<and>
         prescriptionItems (addMedicine js medicine s) =
           prescriptionItems (addMedicine js medicine (s\<lparr>currentPatient := None\<rparr>))"
proof -
  from assms(1) have none:
    "find (\<lambda>item. medicine_id item = m_id medicine) (prescriptionItems s) = None"
    by (auto simp: find_None_iff)
  from assms(6) have inc:
    "includes_str (toLowerCase js recorded) (toLowerCase js (m_name medicine))"
    by (simp add: includes_str_iff)
  have warn: "checkAllergy js medicine s =
      s\<lparr>allergyMessage := AllergicTo (m_name medicine), showAllergyWarning := True\<rparr>"
    using assms(3-5) inc by (simp add: checkAllergy_def)
  have guard: "(dispensingMethod s = internal \<and> m_current_stock medicine \<le> 0) = False"
    using assms(2) by simp
  have added: "addMedicine js medicine s =
      (checkAllergy js medicine s)\<lparr>prescriptionItems := prescriptionItems s @ [newItem js medicine],
         medicineSearch := [], medicineResults := []\<rparr>"
    by (simp add: addMedicine_def Let_def none guard)
  have same: "addMedicine js medicine (s\<lparr>currentPatient := None\<rparr>) =
      (s\<lparr>currentPatient := None\<rparr>)\<lparr>prescriptionItems := prescriptionItems s @ [newItem js medicine],
         medicineSearch := [], medicineResults := []\<rparr>"
    by (simp add: addMedicine_def Let_def none guard checkAllergy_def)
  show ?thesis
    by (simp add: added same warn)
qed

theorem allergy_warning_does_not_block_witness:
  "toLowerCase asciiBuiltins ''Penicillin, GINSENG'' =
     ''penicillin, '' @ toLowerCase asciiBuiltins (m_name ginseng) @ [] \<and>
   showAllergyWarning (addMedicine asciiBuiltins ginseng
     ((selectPatient visitor initialPage)\<lparr>showAllergyWarning := False\<rparr>)) \<and>
   map medicine_id (prescriptionItems (addMedicine asciiBuiltins ginseng
     ((selectPatient visitor initialPage)\<lparr>showAllergyWarning := False\<rparr>))) = [1]"
proof -
  define s where "s = (selectPatient visitor initialPage)\<lparr>showAllergyWarning := False\<rparr>"
  have low: "toLowerCase asciiBuiltins ''Penicillin, GINSENG'' = ''penicillin, ginseng''"
       "toLowerCase asciiBuiltins (m_name ginseng) = ''ginseng''"
    by code_simp+
  have eq: "toLowerCase asciiBuiltins ''Penicillin, GINSENG'' =
     ''penicillin, '' @ toLowerCase asciiBuiltins (m_name ginseng) @ []"
    unfolding low by simp
  then have inc: "\<exists>before after. toLowerCase asciiBuiltins ''Penicillin, GINSENG'' =
     before @ toLowerCase asciiBuiltins (m_name ginseng) @ after"
    by blast
  have a: "\<not> (\<exists>item \<in> set (prescriptionItems s). medicine_id item = m_id ginseng)"
    by (simp add: s_def selectPatient_def Let_def)
  have b: "\<not> (dispensingMethod s = internal \<and> m_current_stock ginseng \<le> 0)"
    by (simp add: ginseng_def)
  have c: "currentPatient s = Some \<lparr>cp_id = 11, cp_name = ''Chan'', cp_chart_number = ''C0011'',
      cp_gender = ''male'', cp_birth_date = ''1980-01-01'', cp_registration_id = 7,
      allergies = Some ''Penicillin, GINSENG''\<rparr>"
    by (simp add: s_def selectPatient_def Let_def visitor_def)
  have d: "prescriptionItems s = []"
    by (simp add: s_def selectPatient_def Let_def)
  from allergy_warning_does_not_block [OF a b c _ _ inc]
  have "showAllergyWarning (addMedicine asciiBuiltins ginseng s) \<and>
        prescriptionItems (addMedicine asciiBuiltins ginseng s) = [newItem asciiBuiltins ginseng]"
    by (simp add: d)
  then show ?thesis using eq by (simp add: s_def newItem_def ginseng_def)
qed

section \<open>Properties of the fee aggregation\<close>

lemma selectedPharmacyData_Some:
  "selectedPharmacyData s = Some p \<Longrightarrow>
     p \<in> set (externalPharmacies s) \<and> selectedPharmacy s = Some (pharmacy_id p)"
  by (auto simp: selectedPharmacyData_def find_Some_iff in_set_conv_nth)

lemma selectedPharmacyData_None:
  "selectedPharmacyData s = None \<longleftrightarrow>
     (\<forall>p \<in> set (externalPharmacies s). Some (pharmacy_id p) \<noteq> selectedPharmacy s)"
  by (auto simp: selectedPharmacyData_def find_None_iff)

text \<open>
  Claim C1. The total is the sum of the subtotals of the line items, plus the sum of the
  amounts of the additional charges, plus the processing fee, plus the delivery fee. The
  two fees are those of the selected pharmacy (the entry of the pharmacy list whose id is
  the selected id) when the dispensing method is not internal and such an entry exists, and
  zero otherwise; after the dispensing method is set to internal both fees are zero
  whatever pharmacy is selected.
\<close>

theorem totalAmount_is_sum:
  "totalAmount s =
     (\<Sum>item \<leftarrow> prescriptionItems s. subtotal item) +
     (\<Sum>charge \<leftarrow> additionalCharges s. amount charge) + processingFee s + deliveryFee s \<and>
   (processingFee s, deliveryFee s) =
     (if dispensingMethod s \<noteq> internal \<and> selectedPharmacyData s \<noteq> None
      then (processing_fee (the (selectedPharmacyData s)),
            delivery_fee (the (selectedPharmacyData s)))
      else (0, 0)) \<and>
   (\<forall>p. selectedPharmacyData s = Some p \<longrightarrow>
        p \<in> set (externalPharmacies s) \<and> selectedPharmacy s = Some (pharmacy_id p)) \<and>
   (selectedPharmacyData s = None \<longleftrightarrow>
      (\<forall>p \<in> set (externalPharmacies s). Some (pharmacy_id p) \<noteq> selectedPharmacy s)) \<and>
   processingFee (setDispensingMethod internal s) = 0 \<and>
   deliveryFee (setDispensingMethod internal s) = 0"
proof (intro conjI)
  show "totalAmount s =
     (\<Sum>item \<leftarrow> prescriptionItems s. subtotal item) +
     (\<Sum>charge \<leftarrow> additionalCharges s. amount charge) + processingFee s + deliveryFee s"
    by (simp add: totalAmount_def medicineTotal_def additionalTotal_def foldl_add_sum_list)
  show "(processingFee s, deliveryFee s) =
     (if dispensingMethod s \<noteq> internal \<and> selectedPharmacyData s \<noteq> None
      then (processing_fee (the (selectedPharmacyData s)),
            delivery_fee (the (selectedPharmacyData s)))
      else (0, 0))"
    by (auto simp: processingFee_def deliveryFee_def)
  show "\<forall>p. selectedPharmacyData s = Some p \<longrightarrow>
        p \<in> set (externalPharmacies s) \<and> selectedPharmacy s = Some (pharmacy_id p)"
    using selectedPharmacyData_Some by blast
  show "selectedPharmacyData s = None \<longleftrightarrow>
      (\<forall>p \<in> set (externalPharmacies s). Some (pharmacy_id p) \<noteq> selectedPharmacy s)"
    by (rule selectedPharmacyData_None)
  show "processingFee (setDispensingMethod internal s) = 0"
    by (simp add: processingFee_def setDispensingMethod_def)
  show "deliveryFee (setDispensingMethod internal s) = 0"
    by (simp add: deliveryFee_def setDispensingMethod_def)
qed

theorem totalAmount_is_sum_witness:
  "selectedPharmacyData
     (setSelectedPharmacy (Some 4) (setDispensingMethod external_decoction billedPage)) \<noteq> None \<and>
   totalAmount billedPage = 55 \<and>
   totalAmount (setSelectedPharmacy (Some 4) (setDispensingMethod external_decoction billedPage))
     = 95 \<and>
   totalAmount (setDispensingMethod internal
     (setSelectedPharmacy (Some 4) (setDispensingMethod external_decoction billedPage))) = 55"
proof -
  define ext where
    "ext = setSelectedPharmacy (Some 4) (setDispensingMethod external_decoction billedPage)"
  have sel: "selectedPharmacyData ext = Some \<lparr>pharmacy_id = 4, pharmacy_name = ''Herbs'',
       pharmacy_type = decoction, processing_fee = 15, delivery_fee = 25\<rparr>"
    by (simp add: ext_def selectedPharmacyData_def setSelectedPharmacy_def
        setDispensingMethod_def billedPage_def initialPage_def)
  have m: "dispensingMethod ext = external_decoction"
    by (simp add: ext_def setSelectedPharmacy_def setDispensingMethod_def)
  have items: "prescriptionItems ext = [lineItem 1 2 10, lineItem 2 3 5]"
      "additionalCharges ext = [\<lparr>charge_name = ''fee'', amount = 20\<rparr>]"
    by (simp_all add: ext_def setSelectedPharmacy_def setDispensingMethod_def billedPage_def)
  have a: "totalAmount ext = 95"
    using totalAmount_is_sum [of ext] by (simp add: sel m items lineItem_def)
  have m0: "dispensingMethod billedPage = internal"
    by (simp add: billedPage_def initialPage_def)
  have items0: "prescriptionItems billedPage = [lineItem 1 2 10, lineItem 2 3 5]"
      "additionalCharges billedPage = [\<lparr>charge_name = ''fee'', amount = 20\<rparr>]"
    by (simp_all add: billedPage_def)
  have b: "totalAmount billedPage = 55"
    using totalAmount_is_sum [of billedPage]
    by (simp add: m0 items0 lineItem_def)
  have c: "totalAmount (setDispensingMethod internal ext) = 55"
    using totalAmount_is_sum [of ext]
    by (simp add: totalAmount_def medicineTotal_def additionalTotal_def
        setDispensingMethod_def items lineItem_def)
  from a b c sel show ?thesis by (simp add: ext_def)
qed

section \<open>Uniqueness of medicine ids\<close>

lemma updateDosage_ids:
  "updateDosage index d items = Inr updated \<Longrightarrow> map medicine_id updated = map medicine_id items"
  by (auto simp: updateDosage_def map_update list_update_same_conv split: if_splits)

lemma removeMedicine_distinct:
  "distinct (map medicine_id items) \<Longrightarrow> distinct (map medicine_id (removeMedicine index items))"
proof -
  assume d: "distinct (map medicine_id items)"
  have "map medicine_id items =
      map medicine_id (take index items) @ map medicine_id (drop index items)"
    by (simp flip: map_append)
  with d have "set (map medicine_id (take index items)) \<inter>
      set (map medicine_id (drop index items)) = {}"
    "distinct (map medicine_id (take index items))"
    "distinct (map medicine_id (drop index items))"
    by (metis distinct_append)+
  moreover have "set (drop (Suc index) items) \<subseteq> set (drop index items)"
    by (metis Suc_eq_plus1 add.commute drop_drop set_drop_subset)
  moreover have "distinct (map medicine_id (drop (Suc index) items))"
    using d by (simp add: distinct_drop flip: drop_map)
  ultimately show ?thesis
    by (auto simp: removeMedicine_take_drop)
qed

lemma addMedicine_distinct:
  "distinct (map medicine_id (prescriptionItems s)) \<Longrightarrow>
     distinct (map medicine_id (prescriptionItems (addMedicine js medicine s)))"
  by (auto simp: addMedicine_def addNotification_def Let_def checkAllergy_fields newItem_def
      find_None_iff split: option.splits)

text \<open>
  Every operation on the list except the application of an experience formula keeps the
  medicine ids of the list distinct.
\<close>

lemma handle_distinct:
  assumes "distinct (map medicine_id (prescriptionItems s))"
    and "\<And>formula. e \<noteq> ApplyExperienceFormula formula"
  shows "distinct (map medicine_id (prescriptionItems (handle js e s)))"
proof (cases e)
  case (AddMedicine medicine)
  with assms(1) show ?thesis by (simp add: addMedicine_distinct)
next
  case (UpdateDosage index d)
  with assms(1) show ?thesis
    by (auto split: sum.splits dest: updateDosage_ids)
next
  case (RemoveMedicine index)
  with assms(1) show ?thesis by (simp add: removeMedicine_distinct)
next
  case (ApplyExperienceFormula formula)
  with assms(2) show ?thesis by blast
next
  case (SelectPatient p)
  then show ?thesis by (simp add: selectPatient_def Let_def)
qed

text \<open>
  Claim C2. The claim asks for at most one line item per medicine id in every reachable
  state. Adding a medicine and then applying an experience formula that contains the same
  medicine reaches a list with two items for medicine 1: \<open>applyExperienceFormula\<close> appends
  the items of the formula without the duplicate test that \<open>addMedicine\<close> makes.
\<close>

theorem formula_duplicates_medicine:
  "map medicine_id (prescriptionItems
     (run asciiBuiltins [AddMedicine ginseng, ApplyExperienceFormula tonic] initialPage)) = [1, 1] \<and>
   \<not> distinct (map medicine_id (prescriptionItems
     (run asciiBuiltins [AddMedicine ginseng, ApplyExperienceFormula tonic] initialPage)))"
proof -
  have "map medicine_id (prescriptionItems
     (run asciiBuiltins [AddMedicine ginseng, ApplyExperienceFormula tonic] initialPage)) = [1, 1]"
    by (simp add: addMedicine_def applyExperienceFormula_def addNotification_def
        checkAllergy_def newItem_def formulaItem_def initialPage_def ginseng_def tonic_def)
  then show ?thesis by simp
qed

section \<open>Masking\<close>

text \<open>
  Claim C10. For a phone string of length 4, 5 or 6 the guard of \<open>maskPhone\<close> does not
  return the input, \<open>repeat\<close> is called with the negative count \<open>length - 7\<close>, and the call
  throws a \<open>RangeError\<close>; these are the only strings on which \<open>maskPhone\<close> throws.
\<close>

theorem maskPhone_throws:
  "(length phone \<in> {4, 5, 6} \<longrightarrow>
      \<not> (phone = [] \<or> length phone < 4) \<and> int (length phone) - 7 < 0 \<and>
      repeat ''*'' (int (length phone) - 7) = Inl RangeError \<and>
      maskPhone phone = Inl RangeError) \<and>
   (length phone \<notin> {4, 5, 6} \<longrightarrow> (\<exists>masked. maskPhone phone = Inr masked))"
  by (auto simp: maskPhone_def repeat_def)

theorem maskPhone_throws_witness:
  "length ''12345'' \<in> {4, 5, 6 :: nat} \<and> maskPhone ''12345'' = Inl RangeError \<and>
   length ''0912345678'' \<notin> {4, 5, 6 :: nat} \<and> maskPhone ''0912345678'' = Inr ''0912***678''"
proof -
  have "maskPhone ''0912345678'' = Inr ''0912***678''"
    by (simp add: maskPhone_def repeat_def slice_def slice_index_def numeral_3_eq_3)
  with maskPhone_throws [of "''12345''"] show ?thesis by simp
qed

section \<open>Properties of the save sequence\<close>

lemma saveFailed_fields:
  "saveFailed s = s\<lparr>saving := False,
     notifications := notifications s @
       [\<lparr>ntype = error, title = SaveFailed, message = Some CheckDataAndRetry\<rparr>]\<rparr>"
  by (simp add: saveFailed_def addNotification_def)

text \<open>
  Claim C4. When the request that creates the consultation is rejected, the save sequence
  has issued that request and no other (no prescription is created, no registration is
  completed), has added one error notification with the fixed title and message, and has
  left the line items, the additional charges, the consultation form and every other part
  of the state as they were, the \<open>saving\<close> flag being off.
\<close>

theorem consultation_failure_keeps_state:
  assumes "currentRegistrationId s = Some registration" and "registration \<noteq> 0"
    and "post_consultation net registration (consultationForm s) = None"
  shows "saveConsultation net s =
           s\<lparr>saving := False,
             notifications := notifications s @
               [\<lparr>ntype = error, title = SaveFailed, message = Some CheckDataAndRetry\<rparr>],
             calls := calls s @ [ConsultationCreate registration (consultationForm s)]\<rparr> \<and>
         newCalls s (saveConsultation net s) =
           [ConsultationCreate registration (consultationForm s)] \<and>
         prescriptionItems (saveConsultation net s) = prescriptionItems s \<and>
         additionalCharges (saveConsultation net s) = additionalCharges s \<and>
         consultationForm (saveConsultation net s) = consultationForm s"
proof -
  have eq: "saveConsultation net s =
           s\<lparr>saving := False,
             notifications := notifications s @
               [\<lparr>ntype = error, title = SaveFailed, message = Some CheckDataAndRetry\<rparr>],
             calls := calls s @ [ConsultationCreate registration (consultationForm s)]\<rparr>"
    using assms by (simp add: saveConsultation_def saveFailed_fields issue_def)
  show ?thesis
    unfolding eq by (simp add: newCalls_def)
qed

theorem consultation_failure_keeps_state_witness:
  "currentRegistrationId (selectPatient visitor initialPage) = Some 7 \<and>
   post_consultation rejectingNetwork 7
     (consultationForm (selectPatient visitor initialPage)) = None \<and>
   newCalls (selectPatient visitor initialPage)
     (saveConsultation rejectingNetwork (selectPatient visitor initialPage)) =
     [ConsultationCreate 7 emptyForm] \<and>
   notifications (saveConsultation rejectingNetwork (selectPatient visitor initialPage)) =
     [\<lparr>ntype = error, title = SaveFailed, message = Some CheckDataAndRetry\<rparr>]"
proof -
  define s where "s = selectPatient visitor initialPage"
  have r: "currentRegistrationId s = Some 7"
    by (simp add: s_def selectPatient_def Let_def visitor_def)
  have f: "consultationForm s = emptyForm"
    by (simp add: s_def selectPatient_def Let_def)
  have n: "notifications s = []"
    by (simp add: s_def selectPatient_def Let_def initialPage_def)
  have p: "post_consultation rejectingNetwork 7 (consultationForm s) = None"
    by (simp add: rejectingNetwork_def)
  have "(7::nat) \<noteq> 0" by simp
  note k = consultation_failure_keeps_state [OF r this p]
  from k have e: "saveConsultation rejectingNetwork s =
           s\<lparr>saving := False,
             notifications := notifications s @
               [\<lparr>ntype = error, title = SaveFailed, message = Some CheckDataAndRetry\<rparr>],
             calls := calls s @ [ConsultationCreate 7 (consultationForm s)]\<rparr>"
    by (rule conjunct1)
  from k have c: "newCalls s (saveConsultation rejectingNetwork s) =
      [ConsultationCreate 7 (consultationForm s)]"
    by blast
  have "notifications (saveConsultation rejectingNetwork s) =
      [\<lparr>ntype = error, title = SaveFailed, message = Some CheckDataAndRetry\<rparr>]"
    unfolding e by (simp add: n)
  with c r p show ?thesis by (simp add: f flip: s_def)
qed

text \<open>
  Claim C5, as stated: without a registration id no request is issued; with a registration
  id that is not null and an empty list of line items exactly two requests are issued,
  consultation create and registration complete. The second part fails: the registration
  id 0 is not null and no request is issued, and when the consultation create is rejected
  one request is issued; when all requests succeed the queue is fetched after them.
\<close>

theorem save_not_exactly_two_calls:
  "currentRegistrationId (selectPatient (visitor\<lparr>queue_id := 0\<rparr>) initialPage) = Some 0 \<and>
   prescriptionItems (selectPatient (visitor\<lparr>queue_id := 0\<rparr>) initialPage) = [] \<and>
   newCalls (selectPatient (visitor\<lparr>queue_id := 0\<rparr>) initialPage)
     (saveConsultation acceptingNetwork (selectPatient (visitor\<lparr>queue_id := 0\<rparr>) initialPage)) = [] \<and>
   currentRegistrationId (selectPatient visitor initialPage) = Some 7 \<and>
   prescriptionItems (selectPatient visitor initialPage) = [] \<and>
   newCalls (selectPatient visitor initialPage)
     (saveConsultation rejectingNetwork (selectPatient visitor initialPage)) =
     [ConsultationCreate 7 emptyForm] \<and>
   newCalls (selectPatient visitor initialPage)
     (saveConsultation acceptingNetwork (selectPatient visitor initialPage)) =
     [ConsultationCreate 7 emptyForm, RegistrationComplete 7, QueueFetch]"
  by (simp add: newCalls_def saveConsultation_def saveFailed_def saveSucceeded_def issue_def
      addNotification_def selectPatient_def Let_def visitor_def initialPage_def
      acceptingNetwork_def rejectingNetwork_def)

text \<open>
  Claim C5, amended. Without a truthy registration id (it is null or 0) the save sequence
  issues no request and adds one error notification. With a registration id other than
  null and 0 and an empty list of line items it never issues the prescription create: it
  issues the consultation create, then, if that succeeded, the registration complete, and,
  if that succeeded too, the fetch of the queue.
\<close>

theorem save_calls_without_items:
  "(\<not> truthy_number (currentRegistrationId s) \<longrightarrow>
      saveConsultation net s =
        s\<lparr>notifications := notifications s @
            [\<lparr>ntype = error, title = SelectPatientFirst, message = None\<rparr>]\<rparr> \<and>
      newCalls s (saveConsultation net s) = []) \<and>
   (currentRegistrationId s = Some registration \<and> registration \<noteq> 0 \<and>
    prescriptionItems s = [] \<longrightarrow>
      newCalls s (saveConsultation net s) =
        (case post_consultation net registration (consultationForm s) of
           None \<Rightarrow> [ConsultationCreate registration (consultationForm s)]
         | Some consultation \<Rightarrow>
             [ConsultationCreate registration (consultationForm s),
              RegistrationComplete registration] @
             (if post_complete net registration then [QueueFetch] else [])))"
proof (rule conjI; rule impI)
  assume "\<not> truthy_number (currentRegistrationId s)"
  then show "saveConsultation net s =
        s\<lparr>notifications := notifications s @
            [\<lparr>ntype = error, title = SelectPatientFirst, message = None\<rparr>]\<rparr> \<and>
      newCalls s (saveConsultation net s) = []"
    by (simp add: saveConsultation_def addNotification_def newCalls_def)
next
  assume a: "currentRegistrationId s = Some registration \<and> registration \<noteq> 0 \<and>
    prescriptionItems s = []"
  show "newCalls s (saveConsultation net s) =
        (case post_consultation net registration (consultationForm s) of
           None \<Rightarrow> [ConsultationCreate registration (consultationForm s)]
         | Some consultation \<Rightarrow>
             [ConsultationCreate registration (consultationForm s),
              RegistrationComplete registration] @
             (if post_complete net registration then [QueueFetch] else []))"
  proof (cases "post_consultation net registration (consultationForm s)")
    case None
    with a show ?thesis
      by (simp add: saveConsultation_def saveFailed_fields issue_def newCalls_def)
  next
    case (Some consultation)
    with a show ?thesis
      by (simp add: saveConsultation_def saveFailed_fields saveSucceeded_def issue_def
          addNotification_def newCalls_def)
  qed
qed

theorem save_calls_without_items_witness:
  "\<not> truthy_number (currentRegistrationId initialPage) \<and>
   newCalls initialPage (saveConsultation acceptingNetwork initialPage) = [] \<and>
   currentRegistrationId (selectPatient visitor initialPage) = Some 7 \<and>
   prescriptionItems (selectPatient visitor initialPage) = [] \<and>
   newCalls (selectPatient visitor initialPage)
     (saveConsultation acceptingNetwork (selectPatient visitor initialPage)) =
     [ConsultationCreate 7 emptyForm, RegistrationComplete 7, QueueFetch]"
proof -
  define s where "s = selectPatient visitor initialPage"
  have r: "currentRegistrationId s = Some 7" and i: "prescriptionItems s = []"
    and f: "consultationForm s = emptyForm"
    by (simp_all add: s_def selectPatient_def Let_def visitor_def)
  have n: "\<not> truthy_number (currentRegistrationId initialPage)"
    by (simp add: initialPage_def)
  have "newCalls s (saveConsultation acceptingNetwork s) =
     [ConsultationCreate 7 emptyForm, RegistrationComplete 7, QueueFetch]"
    using save_calls_without_items [where s = s and registration = 7 and net = acceptingNetwork] r i
    by (simp add: f acceptingNetwork_def)
  moreover have "newCalls initialPage (saveConsultation acceptingNetwork initialPage) = []"
    using save_calls_without_items [where s = initialPage and net = acceptingNetwork
        and registration = 0] n by blast
  ultimately show ?thesis using r i n by (simp add: s_def)
qed

section \<open>Properties of the API client\<close>

lemma requestInterceptor_fields:
  "retry (requestInterceptor b config) = retry config"
  "url (requestInterceptor b config) = url config"
  by (simp_all add: requestInterceptor_def)

text \<open>A request flagged as retried is sent once and its failure is handed to the caller.\<close>

lemma api_retried:
  assumes "retry config"
  shows "api config b =
    (case send (ApiRequest (requestInterceptor b config)) b of
       (Response d, b1) \<Rightarrow> (Resolved d, b1)
     | (Failure status, b1) \<Rightarrow> (Rejected status, b1))"
  using assms
  by (subst api.simps)
     (simp add: Let_def requestInterceptor_fields split: prod.splits Reply.splits)

text \<open>The first step of \<open>api\<close> on a request that is answered by 401 and not flagged.\<close>

lemma api_401:
  assumes "\<not> retry config" and "replies b = Failure (Some 401) # rest"
  shows "api config b =
    (let originalRequest = requestInterceptor b config;
         b1 = b\<lparr>sent := sent b @ [ApiRequest originalRequest], replies := rest\<rparr>
     in if truthy_string (refresh_token b) then
          (case send (TokenRefresh (the (refresh_token b))) b1 of
             (Response access, b2) \<Rightarrow>
               api (originalRequest\<lparr>retry := True,
                                    Authorization := Some (''Bearer '' @ access)\<rparr>)
                   (b2\<lparr>access_token := Some access\<rparr>)
           | (Failure refreshError, b2) \<Rightarrow>
               (Rejected (Some 401),
                b2\<lparr>access_token := None, refresh_token := None,
                   location_href := ''/login''\<rparr>))
        else (Rejected (Some 401), b1))"
  using assms
  by (subst api.simps)
     (simp add: Let_def send_def requestInterceptor_fields)

text \<open>
  Claim C6, as stated: every request answered by 401 and not flagged as retried causes one
  refresh call. With no refresh token in the storage there is none: the request is sent
  once, the error goes to the caller, the stored access token and the address of the
  window stay as they were.
\<close>

theorem no_refresh_without_refresh_token:
  "api getQueue ((loggedIn [Failure (Some 401)])\<lparr>refresh_token := None\<rparr>) =
     (Rejected (Some 401),
      \<lparr>access_token = Some ''old'', refresh_token = None,
       location_href = ''/consultation'',
       sent = [ApiRequest (getQueue\<lparr>Authorization := Some ''Bearer old''\<rparr>)],
       replies = []\<rparr>)"
proof -
  have "\<not> retry getQueue" by (simp add: getQueue_def)
  moreover have "replies ((loggedIn [Failure (Some 401)])\<lparr>refresh_token := None\<rparr>) =
      Failure (Some 401) # []"
    by (simp add: loggedIn_def)
  ultimately show ?thesis
    by (simp add: api_401 Let_def loggedIn_def requestInterceptor_def getQueue_def)
qed

text \<open>
  With a non-empty refresh token in the storage: the two outcomes of the refresh call, for
  a request that is not flagged as retried and is answered by 401.
\<close>

lemma refresh_with_token:
  assumes "\<not> retry config" and "replies b = Failure (Some 401) # rest"
    and "refresh_token b = Some token" and "token \<noteq> []"
  shows "(\<forall>access rest'. rest = Response access # rest' \<longrightarrow>
            sent (snd (api config b)) =
              sent b @ [ApiRequest (requestInterceptor b config), TokenRefresh token,
                        ApiRequest ((requestInterceptor b config)
                          \<lparr>retry := True, Authorization := Some (''Bearer '' @ access)\<rparr>)] \<and>
            access_token (snd (api config b)) = Some access \<and>
            refresh_token (snd (api config b)) = Some token \<and>
            location_href (snd (api config b)) = location_href b \<and>
            replies (snd (api config b)) = tl rest' \<and>
            fst (api config b) =
              (case rest' of [] \<Rightarrow> Rejected None
               | Response d # later \<Rightarrow> Resolved d
               | Failure status # later \<Rightarrow> Rejected status)) \<and>
         (rest = [] \<or> (\<exists>refreshError rest'. rest = Failure refreshError # rest') \<longrightarrow>
            sent (snd (api config b)) =
              sent b @ [ApiRequest (requestInterceptor b config), TokenRefresh token] \<and>
            access_token (snd (api config b)) = None \<and>
            refresh_token (snd (api config b)) = None \<and>
            location_href (snd (api config b)) = ''/login'' \<and>
            replies (snd (api config b)) = tl rest \<and>
            fst (api config b) = Rejected (Some 401))"
proof (rule conjI; intro allI impI)
  fix access rest' assume rest: "rest = Response access # rest'"
  define retried where "retried = (requestInterceptor b config)
      \<lparr>retry := True, Authorization := Some (''Bearer '' @ access)\<rparr>"
  define b2 where "b2 = b\<lparr>sent := sent b @ [ApiRequest (requestInterceptor b config),
      TokenRefresh token], replies := rest', access_token := Some access\<rparr>"
  have step: "api config b = api retried b2"
    using assms rest
    by (simp add: api_401 Let_def send_def retried_def b2_def)
  have again: "requestInterceptor b2 retried = retried"
    by (cases "access = []") (simp_all add: requestInterceptor_def b2_def retried_def)
  have "retry retried" by (simp add: retried_def)
  then have "api retried b2 =
    (case send (ApiRequest retried) b2 of
       (Response d, b1) \<Rightarrow> (Resolved d, b1)
     | (Failure status, b1) \<Rightarrow> (Rejected status, b1))"
    by (simp add: api_retried again)
  then show "sent (snd (api config b)) =
              sent b @ [ApiRequest (requestInterceptor b config), TokenRefresh token,
                        ApiRequest ((requestInterceptor b config)
                          \<lparr>retry := True, Authorization := Some (''Bearer '' @ access)\<rparr>)] \<and>
            access_token (snd (api config b)) = Some access \<and>
            refresh_token (snd (api config b)) = Some token \<and>
            location_href (snd (api config b)) = location_href b \<and>
            replies (snd (api config b)) = tl rest' \<and>
            fst (api config b) =
              (case rest' of [] \<Rightarrow> Rejected None
               | Response d # later \<Rightarrow> Resolved d
               | Failure status # later \<Rightarrow> Rejected status)"
    using assms(3)
    by (simp add: step send_def b2_def retried_def split: list.splits Reply.splits)
next
  assume "rest = [] \<or> (\<exists>refreshError rest'. rest = Failure refreshError # rest')"
  then show "sent (snd (api config b)) =
              sent b @ [ApiRequest (requestInterceptor b config), TokenRefresh token] \<and>
            access_token (snd (api config b)) = None \<and>
            refresh_token (snd (api config b)) = None \<and>
            location_href (snd (api config b)) = ''/login'' \<and>
            replies (snd (api config b)) = tl rest \<and>
            fst (api config b) = Rejected (Some 401)"
    using assms
    by (auto simp: api_401 Let_def send_def)
qed

text \<open>
  Claim C6, amended. Take any request that is not flagged as retried and is answered by
  401. If the storage holds no refresh token (none, or the empty string), no refresh call
  is made: the request has been sent once, the storage and the address of the window are
  as before, and the caller gets the 401. If the storage holds a non-empty refresh token,
  one refresh call is made with that token. When the refresh succeeds, the new access
  token is stored, and the request is sent once more, flagged and with the new token in
  its header; whatever the answer to the retry is, it goes to the caller and nothing more
  is sent. When the refresh fails (or gets no response), both tokens are removed, the
  window is sent to the login page, nothing more is sent, and the caller gets the 401.
\<close>

theorem refresh_on_401:
  assumes "\<not> retry config" and "replies b = Failure (Some 401) # rest"
  shows "(\<not> truthy_string (refresh_token b) \<longrightarrow>
            api config b =
              (Rejected (Some 401),
               b\<lparr>sent := sent b @ [ApiRequest (requestInterceptor b config)],
                 replies := rest\<rparr>)) \<and>
         (\<forall>token. refresh_token b = Some token \<and> token \<noteq> [] \<longrightarrow>
            (\<forall>access rest'. rest = Response access # rest' \<longrightarrow>
               sent (snd (api config b)) =
                 sent b @ [ApiRequest (requestInterceptor b config), TokenRefresh token,
                           ApiRequest ((requestInterceptor b config)
                             \<lparr>retry := True, Authorization := Some (''Bearer '' @ access)\<rparr>)] \<and>
               access_token (snd (api config b)) = Some access \<and>
               refresh_token (snd (api config b)) = Some token \<and>
               location_href (snd (api config b)) = location_href b \<and>
               replies (snd (api config b)) = tl rest' \<and>
               fst (api config b) =
                 (case rest' of [] \<Rightarrow> Rejected None
                  | Response d # later \<Rightarrow> Resolved d
                  | Failure status # later \<Rightarrow> Rejected status)) \<and>
            (rest = [] \<or> (\<exists>refreshError rest'. rest = Failure refreshError # rest') \<longrightarrow>
               sent (snd (api config b)) =
                 sent b @ [ApiRequest (requestInterceptor b config), TokenRefresh token] \<and>
               access_token (snd (api config b)) = None \<and>
               refresh_token (snd (api config b)) = None \<and>
               location_href (snd (api config b)) = ''/login'' \<and>
               replies (snd (api config b)) = tl rest \<and>
               fst (api config b) = Rejected (Some 401)))"
proof (rule conjI)
  show "\<not> truthy_string (refresh_token b) \<longrightarrow>
            api config b =
              (Rejected (Some 401),
               b\<lparr>sent := sent b @ [ApiRequest (requestInterceptor b config)],
                 replies := rest\<rparr>)"
    using assms by (simp add: api_401 Let_def)
next
  show "\<forall>token. refresh_token b = Some token \<and> token \<noteq> [] \<longrightarrow>
            (\<forall>access rest'. rest = Response access # rest' \<longrightarrow>
               sent (snd (api config b)) =
                 sent b @ [ApiRequest (requestInterceptor b config), TokenRefresh token,
                           ApiRequest ((requestInterceptor b config)
                             \<lparr>retry := True, Authorization := Some (''Bearer '' @ access)\<rparr>)] \<and>
               access_token (snd (api config b)) = Some access \<and>
               refresh_token (snd (api config b)) = Some token \<and>
               location_href (snd (api config b)) = location_href b \<and>
               replies (snd (api config b)) = tl rest' \<and>
               fst (api config b) =
                 (case rest' of [] \<Rightarrow> Rejected None
                  | Response d # later \<Rightarrow> Resolved d
                  | Failure status # later \<Rightarrow> Rejected status)) \<and>
            (rest = [] \<or> (\<exists>refreshError rest'. rest = Failure refreshError # rest') \<longrightarrow>
               sent (snd (api config b)) =
                 sent b @ [ApiRequest (requestInterceptor b config), TokenRefresh token] \<and>
               access_token (snd (api config b)) = None \<and>
               refresh_token (snd (api config b)) = None \<and>
               location_href (snd (api config b)) = ''/login'' \<and>
               replies (snd (api config b)) = tl rest \<and>
               fst (api config b) = Rejected (Some 401))"
  proof (intro allI impI)
    fix token assume t: "refresh_token b = Some token \<and> token \<noteq> []"
    then have "refresh_token b = Some token" and "token \<noteq> []" by simp_all
    from refresh_with_token [OF assms this]
    show "(\<forall>access rest'. rest = Response access # rest' \<longrightarrow>
               sent (snd (api config b)) =
                 sent b @ [ApiRequest (requestInterceptor b config), TokenRefresh token,
                           ApiRequest ((requestInterceptor b config)
                             \<lparr>retry := True, Authorization := Some (''Bearer '' @ access)\<rparr>)] \<and>
               access_token (snd (api config b)) = Some access \<and>
               refresh_token (snd (api config b)) = Some token \<and>
               location_href (snd (api config b)) = location_href b \<and>
               replies (snd (api config b)) = tl rest' \<and>
               fst (api config b) =
                 (case rest' of [] \<Rightarrow> Rejected None
                  | Response d # later \<Rightarrow> Resolved d
                  | Failure status # later \<Rightarrow> Rejected status)) \<and>
            (rest = [] \<or> (\<exists>refreshError rest'. rest = Failure refreshError # rest') \<longrightarrow>
               sent (snd (api config b)) =
                 sent b @ [ApiRequest (requestInterceptor b config), TokenRefresh token] \<and>
               access_token (snd (api config b)) = None \<and>
               refresh_token (snd (api config b)) = None \<and>
               location_href (snd (api config b)) = ''/login'' \<and>
               replies (snd (api config b)) = tl rest \<and>
               fst (api config b) = Rejected (Some 401))" .
  qed
qed

theorem refresh_on_401_witness:
  "\<not> retry getQueue \<and>
   api getQueue (loggedIn [Failure (Some 401), Response ''new'', Failure (Some 401)]) =
     (Rejected (Some 401),
      \<lparr>access_token = Some ''new'', refresh_token = Some ''refresh'',
       location_href = ''/consultation'',
       sent = [ApiRequest (getQueue\<lparr>Authorization := Some ''Bearer old''\<rparr>),
               TokenRefresh ''refresh'',
               ApiRequest (getQueue\<lparr>retry := True, Authorization := Some ''Bearer new''\<rparr>)],
       replies = []\<rparr>) \<and>
   sent (snd (api getQueue (loggedIn [Failure (Some 401), Failure None]))) =
     [ApiRequest (getQueue\<lparr>Authorization := Some ''Bearer old''\<rparr>), TokenRefresh ''refresh''] \<and>
   access_token (snd (api getQueue (loggedIn [Failure (Some 401), Failure None]))) = None \<and>
   refresh_token (snd (api getQueue (loggedIn [Failure (Some 401), Failure None]))) = None \<and>
   location_href (snd (api getQueue (loggedIn [Failure (Some 401), Failure None]))) = ''/login'' \<and>
   \<not> truthy_string (refresh_token
        ((loggedIn [Failure (Some 401), Response ''new''])\<lparr>refresh_token := Some []\<rparr>)) \<and>
   api getQueue ((loggedIn [Failure (Some 401), Response ''new''])\<lparr>refresh_token := Some []\<rparr>) =
     (Rejected (Some 401),
      \<lparr>access_token = Some ''old'', refresh_token = Some [],
       location_href = ''/consultation'',
       sent = [ApiRequest (getQueue\<lparr>Authorization := Some ''Bearer old''\<rparr>)],
       replies = [Response ''new'']\<rparr>)"
proof -
  have nr: "\<not> retry getQueue" by (simp add: getQueue_def)
  define b where "b = loggedIn [Failure (Some 401), Response ''new'', Failure (Some 401)]"
  define b' where "b' = loggedIn [Failure (Some 401), Failure None]"
  define b0 where
    "b0 = (loggedIn [Failure (Some 401), Response ''new''])\<lparr>refresh_token := Some []\<rparr>"
  have r: "replies b = Failure (Some 401) # [Response ''new'', Failure (Some 401)]"
       "refresh_token b = Some ''refresh'' \<and> ''refresh'' \<noteq> []"
    by (simp_all add: b_def loggedIn_def)
  have r': "replies b' = Failure (Some 401) # [Failure None]"
       "refresh_token b' = Some ''refresh'' \<and> ''refresh'' \<noteq> []"
    by (simp_all add: b'_def loggedIn_def)
  have r0: "replies b0 = Failure (Some 401) # [Response ''new'']"
       "\<not> truthy_string (refresh_token b0)"
    by (simp_all add: b0_def loggedIn_def)
  have i: "requestInterceptor b getQueue = getQueue\<lparr>Authorization := Some ''Bearer old''\<rparr>"
          "requestInterceptor b' getQueue = getQueue\<lparr>Authorization := Some ''Bearer old''\<rparr>"
          "requestInterceptor b0 getQueue = getQueue\<lparr>Authorization := Some ''Bearer old''\<rparr>"
    by (simp_all add: requestInterceptor_def b_def b'_def b0_def loggedIn_def)
  have f: "sent b = []" "location_href b = ''/consultation''" "sent b' = []"
    by (simp_all add: b_def b'_def loggedIn_def)
  note k = refresh_on_401 [OF nr r(1)]
  from k r(2) have ok: "sent (snd (api getQueue b)) =
       [ApiRequest (getQueue\<lparr>Authorization := Some ''Bearer old''\<rparr>), TokenRefresh ''refresh'',
        ApiRequest (getQueue\<lparr>retry := True, Authorization := Some ''Bearer new''\<rparr>)] \<and>
     access_token (snd (api getQueue b)) = Some ''new'' \<and>
     refresh_token (snd (api getQueue b)) = Some ''refresh'' \<and>
     location_href (snd (api getQueue b)) = ''/consultation'' \<and>
     replies (snd (api getQueue b)) = [] \<and>
     fst (api getQueue b) = Rejected (Some 401)"
    by (simp add: i f)
  note k' = refresh_on_401 [OF nr r'(1)]
  from k' r'(2) have bad: "sent (snd (api getQueue b')) =
       [ApiRequest (getQueue\<lparr>Authorization := Some ''Bearer old''\<rparr>), TokenRefresh ''refresh''] \<and>
     access_token (snd (api getQueue b')) = None \<and>
     refresh_token (snd (api getQueue b')) = None \<and>
     location_href (snd (api getQueue b')) = ''/login''"
    by (simp add: i f)
  note k0 = refresh_on_401 [OF nr r0(1)]
  from k0 r0(2) have none: "api getQueue b0 =
     (Rejected (Some 401),
      b0\<lparr>sent := sent b0 @ [ApiRequest (getQueue\<lparr>Authorization := Some ''Bearer old''\<rparr>)],
         replies := [Response ''new'']\<rparr>)"
    by (simp add: i)
  have whole: "api getQueue b =
     (Rejected (Some 401),
      \<lparr>access_token = Some ''new'', refresh_token = Some ''refresh'',
       location_href = ''/consultation'',
       sent = [ApiRequest (getQueue\<lparr>Authorization := Some ''Bearer old''\<rparr>),
               TokenRefresh ''refresh'',
               ApiRequest (getQueue\<lparr>retry := True, Authorization := Some ''Bearer new''\<rparr>)],
       replies = []\<rparr>)"
    using ok by (cases "api getQueue b") (auto intro: Browser.equality)
  have none': "api getQueue b0 =
     (Rejected (Some 401),
      \<lparr>access_token = Some ''old'', refresh_token = Some [],
       location_href = ''/consultation'',
       sent = [ApiRequest (getQueue\<lparr>Authorization := Some ''Bearer old''\<rparr>)],
       replies = [Response ''new'']\<rparr>)"
    unfolding none by (simp add: b0_def loggedIn_def)
  from bad whole none' nr r0(2) show ?thesis by (simp add: b_def b'_def b0_def)
qed

end
